theory Spec2Isabelle
  imports Main "HOL-Library.AList"
begin

section \<open>Python values and built-ins used by the application\<close>

text \<open>
  A Python \<open>str\<close> is modelled as a list of code points, restricted to the code points
  below 256 (\<open>char\<close> read as a code point, not as a UTF-8 byte). Python integers are
  unbounded: \<open>int\<close>. An exception is a value of \<open>py_exn\<close>; a computation that may
  raise returns \<open>py_exn + 'a\<close>, with \<open>Inl\<close> for the exception raised.
\<close>

datatype py_exn =
    ValueError
  | IndexError
  | KeyError
  | TypeError
  | ZeroDivisionError
  | RecursionError

text \<open>\<open>str.isspace\<close> on the code points below 256: TAB..CR, FS..US, space, NEL, NBSP.\<close>

definition is_space :: "char \<Rightarrow> bool" where
  "is_space c = ((of_char c :: nat) \<in> {9, 10, 11, 12, 13, 28, 29, 30, 31, 32, 133, 160})"

text \<open>\<open>s.strip()\<close>: whitespace removed at both ends.\<close>

definition py_strip :: "string \<Rightarrow> string" where
  "py_strip s = rev (dropWhile is_space (rev (dropWhile is_space s)))"

text \<open>
  \<open>s.split(sep)\<close> for a one-character separator: every occurrence splits, empty
  pieces are kept, and the result is never empty (\<open>"".split(",") == [""]\<close>), so the
  first branch of the \<open>case\<close> below is never taken.
\<close>

fun py_split :: "char \<Rightarrow> string \<Rightarrow> string list" where
  "py_split sep [] = ['''']"
| "py_split sep (c # cs) =
     (if c = sep then [] # py_split sep cs
      else (case py_split sep cs of
              [] \<Rightarrow> [c] # []
            | p # ps \<Rightarrow> (c # p) # ps))"

definition is_digit :: "char \<Rightarrow> bool" where
  "is_digit c = (48 \<le> (of_char c :: nat) \<and> (of_char c :: nat) \<le> 57)"

definition digit_val :: "char \<Rightarrow> nat" where
  "digit_val c = of_char c - 48"

text \<open>
  The digits of \<open>int(s)\<close> in base 10: at least one digit, a single underscore allowed
  between two digits only. \<open>prev\<close> tells whether the previous character was a digit.
\<close>

fun scan_digits :: "bool \<Rightarrow> nat \<Rightarrow> string \<Rightarrow> nat option" where
  "scan_digits prev acc [] = (if prev then Some acc else None)"
| "scan_digits prev acc (c # cs) =
     (if is_digit c then scan_digits True (10 * acc + digit_val c) cs
      else if c = CHR ''_'' \<and> prev then scan_digits False acc cs
      else None)"

text \<open>The interpreter's default limit on the digits of a decimal string (CPython 3.11).\<close>

definition int_max_str_digits :: nat where
  "int_max_str_digits = 4300"

text \<open>
  \<open>int(s)\<close> for a \<open>str\<close>: surrounding whitespace is ignored, then an optional sign,
  then the digits. Anything else raises \<open>ValueError\<close>.
\<close>

definition py_int :: "string \<Rightarrow> py_exn + int" where
  "py_int s =
     (let t = py_strip s;
          neg = (case t of [] \<Rightarrow> False | c # _ \<Rightarrow> c = CHR ''-'');
          body = (case t of [] \<Rightarrow> []
                  | c # r \<Rightarrow> if c = CHR ''+'' \<or> c = CHR ''-'' then r else t)
      in if int_max_str_digits < length (filter is_digit body) then Inl ValueError
         else (case scan_digits False 0 body of
                 None \<Rightarrow> Inl ValueError
               | Some n \<Rightarrow> Inr (if neg then - int n else int n)))"

section \<open>The unit-mix parser\<close>

text \<open>
  Lines 86 to 95 of \<open>app.py\<close>. The dictionary \<open>units_by_type_dict\<close> is an association
  list in insertion order; \<open>AList.update\<close> overwrites the value of a key already
  present in place and appends a new key, as a Python \<open>dict\<close> does. The warnings shown
  with \<open>st.warning\<close> are collected in order.
\<close>

record unit_mix =
  units_by_type_dict :: "(string \<times> int) list"
  warnings :: "string list"

definition st_warning :: "string \<Rightarrow> unit_mix \<Rightarrow> unit_mix" where
  "st_warning msg s = s\<lparr>warnings := warnings s @ [msg]\<rparr>"

text \<open>
  The body of the loop for one \<open>item\<close>. The unpacking \<open>key, val = item.split(":")\<close>
  stands before the \<open>try\<close>: with any number of parts other than two it raises
  \<open>ValueError\<close>, which nothing catches. Inside the \<open>try\<close>, \<open>except ValueError\<close>
  catches the failure of \<open>int\<close>.
\<close>

definition units_by_type_item :: "string \<Rightarrow> unit_mix \<Rightarrow> py_exn + unit_mix" where
  "units_by_type_item item s =
     (if CHR '':'' \<in> set item then
        (case py_split (CHR '':'') item of
           [key, val] \<Rightarrow>
             (case py_int (py_strip val) of
                Inr n \<Rightarrow>
                  Inr (s\<lparr>units_by_type_dict :=
                            AList.update (py_strip key) n (units_by_type_dict s)\<rparr>)
              | Inl e \<Rightarrow>
                  if e = ValueError
                  then Inr (st_warning
                         (''Invalid value for '' @ py_strip key @ '': '' @ py_strip val) s)
                  else Inl e)
         | _ \<Rightarrow> Inl ValueError)
      else Inr s)"

fun units_by_type_loop :: "string list \<Rightarrow> unit_mix \<Rightarrow> py_exn + unit_mix" where
  "units_by_type_loop [] s = Inr s"
| "units_by_type_loop (item # items) s =
     (case units_by_type_item item s of
        Inl e \<Rightarrow> Inl e
      | Inr s' \<Rightarrow> units_by_type_loop items s')"

text \<open>The text of the text area, split at the commas (line 86), then the loop.\<close>

definition parse_unit_mix :: "string \<Rightarrow> py_exn + unit_mix" where
  "parse_unit_mix text =
     units_by_type_loop (py_split (CHR '','') text)
       \<lparr>units_by_type_dict = [], warnings = []\<rparr>"

section \<open>Floating-point numbers\<close>

text \<open>
  The widgets deliver Python integers. The only floating-point operations of the
  application are the true division \<open>profit / total_cost\<close> of two integers and the
  product of that quotient with \<open>100\<close>. Their results are double-precision numbers of
  the interpreter; the model does not compute them but takes the three operations as
  parameters, so that every theorem holds for whatever they compute. The integers a
  number input delivers are bounded (64 bits at most), so the quotient is always in the
  range of a double: the \<open>OverflowError\<close> of the division of huge integers is not
  modelled.
\<close>

record 'f float_ops =
  int_truediv :: "int \<Rightarrow> int \<Rightarrow> 'f"
  float_mul :: "'f \<Rightarrow> 'f \<Rightarrow> 'f"
  float_of_int :: "int \<Rightarrow> 'f"

text \<open>A Python number: an \<open>int\<close> or a \<open>float\<close>.\<close>

datatype 'f number = Int_val int | Float_val 'f

text \<open>\<open>a / b\<close> on integers raises \<open>ZeroDivisionError\<close> when \<open>b\<close> is zero.\<close>

definition py_truediv :: "'f float_ops \<Rightarrow> int \<Rightarrow> int \<Rightarrow> py_exn + 'f" where
  "py_truediv fp a b = (if b = 0 then Inl ZeroDivisionError else Inr (int_truediv fp a b))"

text \<open>
  An instance of the operations for evaluating the model on concrete inputs: a float is
  represented by the expression that computes it.
\<close>

datatype float_expr =
    Truediv int int
  | Mul float_expr float_expr
  | Of_int int

definition symbolic_ops :: "float_expr float_ops" where
  "symbolic_ops = \<lparr>int_truediv = Truediv, float_mul = Mul, float_of_int = Of_int\<rparr>"

section \<open>JSON values and HTTP\<close>

text \<open>What \<open>response.json()\<close> decodes: the values of Python's \<open>json\<close> module.\<close>

datatype 'f json =
    JNull
  | JBool bool
  | JInt int
  | JFloat 'f
  | JStr string
  | JArr "'f json list"
  | JObj "(string \<times> 'f json) list"

text \<open>
  \<open>x[i]\<close> for a decoded value \<open>x\<close> and an index \<open>i \<ge> 0\<close>: a list or a string is
  indexed and raises \<open>IndexError\<close> out of range; a dict has string keys only, so the
  integer key raises \<open>KeyError\<close>; a number, a boolean or \<open>None\<close> is not
  subscriptable.
\<close>

fun py_getitem :: "'f json \<Rightarrow> nat \<Rightarrow> py_exn + 'f json" where
  "py_getitem (JArr xs) i = (if i < length xs then Inr (xs ! i) else Inl IndexError)"
| "py_getitem (JStr s) i = (if i < length s then Inr (JStr [s ! i]) else Inl IndexError)"
| "py_getitem (JObj kvs) i = Inl KeyError"
| "py_getitem JNull i = Inl TypeError"
| "py_getitem (JBool b) i = Inl TypeError"
| "py_getitem (JInt n) i = Inl TypeError"
| "py_getitem (JFloat x) i = Inl TypeError"

record http_request =
  url :: string
  params :: "(string \<times> string) list"
  timeout :: nat

text \<open>
  What the network answers to a request. \<open>Request_raises\<close>: \<open>requests.get\<close> itself
  raised a \<open>RequestException\<close> (no connection, timeout, too many redirects), with its
  text. \<open>Response\<close>: a response arrived, with its status code and its body.

  The body is given by what \<open>response.json()\<close> does with it. \<open>Json data\<close>: it
  returns the decoded value \<open>data\<close>. \<open>Not_json\<close>: the text is not JSON and it raises
  \<open>JSONDecodeError\<close>, the only exception of the decoder that \<open>requests\<close> turns into
  one of its own. \<open>Json_raises e\<close>: the decoder raises another exception \<open>e\<close>, which
  \<open>response.json()\<close> lets through: \<open>ValueError\<close> for an integer literal of more than
  4300 digits (the limit of \<open>int\<close>), \<open>RecursionError\<close> for arrays or objects nested
  deeper than the interpreter allows. A body with such a literal or such nesting is
  therefore never \<open>Json data\<close>, whatever its text.
\<close>

datatype 'f body =
    Not_json
  | Json_raises py_exn
  | Json "'f json"

datatype 'f http_outcome =
    Request_raises string
  | Response nat "'f body"

text \<open>
  The exceptions of \<open>requests\<close>, all subclasses of \<open>RequestException\<close>: a failed
  transport, \<open>HTTPError\<close> from \<open>raise_for_status\<close>, \<open>JSONDecodeError\<close> from
  \<open>response.json()\<close> (a \<open>RequestException\<close> since requests 2.27).
\<close>

datatype request_exception =
    Transport_error string
  | HTTPError nat
  | JSONDecodeError

text \<open>\<open>response.raise_for_status()\<close> raises for the status codes 400 to 599 only.\<close>

definition raise_for_status :: "nat \<Rightarrow> request_exception option" where
  "raise_for_status status =
     (if 400 \<le> status \<and> status < 600 then Some (HTTPError status) else None)"

section \<open>The user interface and the outside world\<close>

text \<open>
  What the application shows, in order. An f-string whose fields are strings is rendered;
  a field that is an exception or a number is kept as a value beside the literal text
  (\<open>str\<close> and the number formats are not modelled).
\<close>

datatype 'f notice =
    St_error string request_exception
  | St_warning string
  | St_success string
  | St_success_value string "'f json"
  | St_metric string "'f number"
  | St_write_units string int

record 'f world =
  ui :: "'f notice list"
  sent :: "http_request list"

definition show_notice :: "'f notice \<Rightarrow> 'f world \<Rightarrow> 'f world" where
  "show_notice n w = w\<lparr>ui := ui w @ [n]\<rparr>"

section \<open>External data functions\<close>

definition census_request :: "string \<Rightarrow> string \<Rightarrow> string \<Rightarrow> http_request" where
  "census_request state_fips county_fips api_key =
     \<lparr>url = ''https://api.census.gov/data/2021/acs/acs5'',
      params = [(''get'', ''NAME,B19013_001E''),
                (''for'', ''county:'' @ county_fips),
                (''in'', ''state:'' @ state_fips),
                (''key'', api_key)],
      timeout = 10\<rparr>"

text \<open>
  The body of the \<open>try\<close> in \<open>get_census_data\<close> (lines 23 to 26), given what the
  network answered: an exception of \<open>requests\<close> is \<open>Inl (Inl e)\<close>, any other
  exception \<open>Inl (Inr e)\<close>.
\<close>

definition census_try :: "'f http_outcome \<Rightarrow> (request_exception + py_exn) + 'f json" where
  "census_try answer =
     (case answer of
        Request_raises msg \<Rightarrow> Inl (Inl (Transport_error msg))
      | Response status body \<Rightarrow>
          (case raise_for_status status of
             Some e \<Rightarrow> Inl (Inl e)
           | None \<Rightarrow>
               (case body of
                  Not_json \<Rightarrow> Inl (Inl JSONDecodeError)
                | Json_raises e \<Rightarrow> Inl (Inr e)
                | Json data \<Rightarrow>
                    (case py_getitem data 1 of
                       Inl e \<Rightarrow> Inl (Inr e)
                     | Inr row \<Rightarrow>
                         (case py_getitem row 1 of
                            Inl e \<Rightarrow> Inl (Inr e)
                          | Inr v \<Rightarrow> Inr v)))))"

text \<open>
  \<open>get_census_data\<close>: the request is sent; \<open>except requests.RequestException\<close>
  shows the error and returns \<open>"N/A"\<close>; any other exception leaves the function.
  A call that raises is modelled by its exception alone.
\<close>

definition get_census_data ::
  "(http_request \<Rightarrow> 'f http_outcome) \<Rightarrow> string \<Rightarrow> string \<Rightarrow> string \<Rightarrow> 'f world
     \<Rightarrow> py_exn + ('f json \<times> 'f world)" where
  "get_census_data net state_fips county_fips api_key w =
     (let request = census_request state_fips county_fips api_key;
          w1 = w\<lparr>sent := sent w @ [request]\<rparr>
      in case census_try (net request) of
           Inr v \<Rightarrow> Inr (v, w1)
         | Inl (Inl e) \<Rightarrow>
             Inr (JStr ''N/A'', show_notice (St_error ''Error fetching Census data: '' e) w1)
         | Inl (Inr e) \<Rightarrow> Inl e)"

definition get_zillow_rent_zestimate :: "string \<Rightarrow> string \<Rightarrow> 'f world \<Rightarrow> int \<times> 'f world" where
  "get_zillow_rent_zestimate property_address zillow_api_key w =
     (2500,
      show_notice
        (St_warning
           ''Zillow API integration requires approval and setup. Returning sample value.'')
        w)"

section \<open>The script\<close>

text \<open>
  The values the widgets deliver in one run of the script, under the names of the
  variables they are assigned to. A text area that the script splits at once is kept as
  its text (\<open>_text\<close>); a button is the boolean it returns. \<open>st.number_input\<close> with
  integer \<open>min_value\<close> and \<open>value\<close> delivers a Python \<open>int\<close>.
\<close>

record widgets =
  census_api_key :: string
  zillow_api_key :: string
  discovery :: string
  validation :: string
  creation :: string
  relationship :: string
  zoning :: string
  permitting :: string
  gov_programs_text :: string
  improvement_districts_text :: string
  cost_per_sqft :: int
  demographics :: string
  state_fips :: string
  county_fips :: string
  census_button :: bool
  property_address :: string
  zillow_button :: bool
  avg_dwelling_price_own :: int
  occupancy_rates :: int
  net_migration :: string
  bldg_sqft :: int
  units_by_type_text :: string
  commercial_units :: int
  conversion_costs :: int
  rental_income :: int
  operating_expenses :: int
  condo_sellout :: int
  evaluate_button :: bool

text \<open>
  The variables of the script when line 103 is reached: the widget values and what the
  script has computed from them. The field \<open>units_by_type\<close> is the variable
  \<open>units_by_type_dict\<close> after the loop (the name is taken by the state of the loop).
\<close>

record 'f variables = widgets +
  gov_programs :: "string list"
  improvement_districts :: "string list"
  avg_income :: "'f json"
  avg_dwelling_price_rent :: int
  units_by_type_input :: "string list"
  units_by_type :: "(string \<times> int) list"

text \<open>The four values computed at lines 104 to 107.\<close>

record 'f evaluation =
  total_cost :: int
  noi :: int
  profit :: int
  roi :: "'f number"

text \<open>
  Lines 104 to 107. In \<open>(profit / total_cost) * 100 if total_cost else 0\<close> the condition
  is the truth value of an \<open>int\<close> (nonzero), the quotient is a \<open>float\<close>, \<open>100\<close> is
  converted to a \<open>float\<close> for the product, and the other branch is the \<open>int\<close> 0.
\<close>

definition evaluate :: "'f float_ops \<Rightarrow> ('f, 'a) variables_scheme \<Rightarrow> py_exn + 'f evaluation" where
  "evaluate fp v =
     (let total_cost = (bldg_sqft v * cost_per_sqft v) + conversion_costs v;
          noi = rental_income v - operating_expenses v;
          profit = condo_sellout v - total_cost
      in case (if total_cost \<noteq> 0
               then (case py_truediv fp profit total_cost of
                       Inl e \<Rightarrow> Inl e
                     | Inr q \<Rightarrow> Inr (Float_val (float_mul fp q (float_of_int fp 100))))
               else Inr (Int_val 0)) of
           Inl e \<Rightarrow> Inl e
         | Inr r \<Rightarrow>
             Inr \<lparr>total_cost = total_cost, noi = noi, profit = profit, roi = r\<rparr>)"

text \<open>Lines 109 to 118: what the evaluation shows.\<close>

definition show_evaluation ::
  "'f evaluation \<Rightarrow> (string \<times> int) list \<Rightarrow> 'f world \<Rightarrow> 'f world" where
  "show_evaluation ev units w =
     w\<lparr>ui := ui w @
          [St_success ''Evaluation Complete'',
           St_metric ''Total Development Cost'' (Int_val (total_cost ev)),
           St_metric ''Net Operating Income (NOI)'' (Int_val (noi ev)),
           St_metric ''For-Sale ROI'' (roi ev)] @
          map (\<lambda>(unit, count). St_write_units unit count) units\<rparr>"

text \<open>Lines 67 to 71: the median income is fetched when its button was pressed.\<close>

definition fetch_income ::
  "(http_request \<Rightarrow> 'f http_outcome) \<Rightarrow> widgets \<Rightarrow> 'f world
     \<Rightarrow> py_exn + ('f json \<times> 'f world)" where
  "fetch_income net i w =
     (if census_button i
      then (case get_census_data net (state_fips i) (county_fips i) (census_api_key i) w of
              Inl e \<Rightarrow> Inl e
            | Inr (income, w') \<Rightarrow>
                Inr (income,
                     show_notice (St_success_value ''Median Household Income: $'' income) w'))
      else Inr (JInt 85000, w))"

text \<open>Lines 74 to 78: the same for the rent estimate.\<close>

definition fetch_rent :: "widgets \<Rightarrow> 'f world \<Rightarrow> int \<times> 'f world" where
  "fetch_rent i w =
     (if zillow_button i
      then (let (rent, w') = get_zillow_rent_zestimate (property_address i) (zillow_api_key i) w
            in (rent,
                show_notice (St_success_value ''Zillow Rent Zestimate: $'' (JInt rent)) w'))
      else (2500, w))"

text \<open>The variables of the script, from the widget values and the values computed.\<close>

definition script_variables ::
  "widgets \<Rightarrow> 'f json \<Rightarrow> int \<Rightarrow> unit_mix \<Rightarrow> 'f variables" where
  "script_variables i income rent mix =
     widgets.extend i
       (variables.fields
          (py_split (CHR '','') (gov_programs_text i))
          (py_split (CHR '','') (improvement_districts_text i))
          income rent
          (py_split (CHR '','') (units_by_type_text i))
          (units_by_type_dict mix))"

text \<open>
  One run of the script, from the widget values and the network to the variables, the
  evaluation (if the button asked for one) and what was shown and sent; or to the
  exception that ended the run.
\<close>

definition app ::
  "'f float_ops \<Rightarrow> (http_request \<Rightarrow> 'f http_outcome) \<Rightarrow> widgets \<Rightarrow> 'f world
     \<Rightarrow> py_exn + ('f variables \<times> 'f evaluation option \<times> 'f world)" where
  "app fp net i w0 =
     (case fetch_income net i w0 of
        Inl e \<Rightarrow> Inl e
      | Inr (income, w1) \<Rightarrow>
          (let (rent, w2) = fetch_rent i w1
           in case parse_unit_mix (units_by_type_text i) of
                Inl e \<Rightarrow> Inl e
              | Inr mix \<Rightarrow>
                  (let w3 = w2\<lparr>ui := ui w2 @ map St_warning (warnings mix)\<rparr>;
                       v = script_variables i income rent mix
                   in if evaluate_button i
                      then (case evaluate fp v of
                              Inl e \<Rightarrow> Inl e
                            | Inr ev \<Rightarrow>
                                Inr (v, Some ev, show_evaluation ev (units_by_type v) w3))
                      else Inr (v, None, w3))))"

text \<open>
  The widget values of the first run, before the user has entered anything: the
  \<open>value=\<close> defaults of the script, empty texts (no API key in the environment), no
  button pressed.
\<close>

definition default_widgets :: widgets where
  "default_widgets =
     \<lparr>census_api_key = '''', zillow_api_key = '''',
      discovery = '''', validation = '''', creation = '''', relationship = '''',
      zoning = '''', permitting = '''',
      gov_programs_text = '''', improvement_districts_text = '''',
      cost_per_sqft = 200, demographics = '''',
      state_fips = '''', county_fips = '''', census_button = False,
      property_address = '''', zillow_button = False,
      avg_dwelling_price_own = 350000, occupancy_rates = 92, net_migration = '''',
      bldg_sqft = 50000, units_by_type_text = '''',
      commercial_units = 3, conversion_costs = 3000000,
      rental_income = 1200000, operating_expenses = 400000,
      condo_sellout = 20000000, evaluate_button = False\<rparr>"

text \<open>The variables the script computes from them.\<close>

definition default_variables :: "'f variables" where
  "default_variables =
     script_variables default_widgets (JInt 85000) 2500
       \<lparr>units_by_type_dict = [], warnings = []\<rparr>"

section \<open>Properties of the unit-mix parser\<close>

subsection \<open>Splitting and integer parsing\<close>

lemma py_split_not_Nil: "py_split sep s \<noteq> []"
  by (induction s) (auto split: list.splits)

lemma length_py_split: "length (py_split sep s) = Suc (length (filter (\<lambda>c. c = sep) s))"
  by (induction s) (auto split: list.splits simp: py_split_not_Nil)

lemma units_by_type_item_many_colons:
  assumes "1 < length (filter (\<lambda>c. c = CHR '':'') item)"
  shows "units_by_type_item item s = Inl ValueError"
proof -
  have "filter (\<lambda>c. c = CHR '':'') item \<noteq> []"
    using assms by auto
  then have mem: "CHR '':'' \<in> set item"
    by (auto simp: filter_empty_conv)
  have len: "2 < length (py_split (CHR '':'') item)"
    using assms by (simp add: length_py_split)
  then obtain a r1 where 1: "py_split (CHR '':'') item = a # r1"
    by (cases "py_split (CHR '':'') item") auto
  with len obtain b r2 where 2: "r1 = b # r2"
    by (cases r1) auto
  with 1 len obtain c r3 where 3: "r2 = c # r3"
    by (cases r2) auto
  show ?thesis
    using mem by (simp add: units_by_type_item_def 1 2 3)
qed

lemma py_split_two_mem:
  assumes "py_split sep item = [key, val]"
  shows "sep \<in> set item"
proof -
  have "length (py_split sep item) = 2" using assms by simp
  then have "length (filter (\<lambda>c. c = sep) item) = 1" by (simp add: length_py_split)
  then have "filter (\<lambda>c. c = sep) item \<noteq> []" by auto
  then show ?thesis by (auto simp: filter_empty_conv)
qed

lemma py_int_raises: "py_int s = Inl e \<Longrightarrow> e = ValueError"
  by (auto simp: py_int_def Let_def split: if_splits option.splits)

lemma units_by_type_loop_append:
  "units_by_type_loop (xs @ ys) s =
     (case units_by_type_loop xs s of Inl e \<Rightarrow> Inl e | Inr s' \<Rightarrow> units_by_type_loop ys s')"
  by (induction xs arbitrary: s) (auto split: sum.splits)

lemma units_by_type_item_no_colon:
  "CHR '':'' \<notin> set item \<Longrightarrow> units_by_type_item item s = Inr s"
  by (simp add: units_by_type_item_def)

lemma units_by_type_item_invalid:
  assumes "py_split (CHR '':'') item = [key, val]" and "py_int (py_strip val) = Inl e"
  shows "units_by_type_item item s =
           Inr (s\<lparr>warnings := warnings s @
                  [''Invalid value for '' @ py_strip key @ '': '' @ py_strip val]\<rparr>)"
  using assms py_split_two_mem[OF assms(1)] py_int_raises[OF assms(2)]
  by (simp add: units_by_type_item_def st_warning_def)

lemma units_by_type_item_valid:
  assumes "py_split (CHR '':'') item = [key, val]" and "py_int (py_strip val) = Inr n"
  shows "units_by_type_item item s =
           Inr (s\<lparr>units_by_type_dict := AList.update (py_strip key) n (units_by_type_dict s)\<rparr>)"
  using assms py_split_two_mem[OF assms(1)]
  by (simp add: units_by_type_item_def)



lemma units_by_type_item_one_colon:
  assumes "length (filter (\<lambda>c. c = CHR '':'') item) = 1"
  shows "\<exists>s'. units_by_type_item item s = Inr s'"
proof -
  have "length (py_split (CHR '':'') item) = 2"
    using assms by (simp add: length_py_split)
  then obtain key val where kv: "py_split (CHR '':'') item = [key, val]"
    by (auto simp: length_Suc_conv numeral_2_eq_2)
  show ?thesis
  proof (cases "py_int (py_strip val)")
    case (Inl e)
    with kv show ?thesis by (simp add: units_by_type_item_invalid)
  next
    case (Inr n)
    with kv show ?thesis by (simp add: units_by_type_item_valid)
  qed
qed

lemma units_by_type_item_returns:
  "(\<exists>s'. units_by_type_item item s = Inr s') \<longleftrightarrow>
     length (filter (\<lambda>c. c = CHR '':'') item) \<le> 1"
proof (cases "length (filter (\<lambda>c. c = CHR '':'') item) \<le> 1")
  case False
  then have "units_by_type_item item s = Inl ValueError"
    by (intro units_by_type_item_many_colons) simp
  with False show ?thesis by simp
next
  case True
  show ?thesis
  proof (cases "length (filter (\<lambda>c. c = CHR '':'') item) = 1")
    case True
    with units_by_type_item_one_colon [OF True] show ?thesis by simp
  next
    case False
    with True have "length (filter (\<lambda>c. c = CHR '':'') item) = 0" by arith
    then have "filter (\<lambda>c. c = CHR '':'') item = []" by simp
    then have "CHR '':'' \<notin> set item" by (auto simp: filter_empty_conv)
    with True show ?thesis by (simp add: units_by_type_item_no_colon)
  qed
qed

lemma units_by_type_loop_returns:
  "(\<exists>s'. units_by_type_loop items s = Inr s') \<longleftrightarrow>
     (\<forall>item \<in> set items. length (filter (\<lambda>c. c = CHR '':'') item) \<le> 1)"
proof (induction items arbitrary: s)
  case Nil
  show ?case by simp
next
  case (Cons item items)
  show ?case
  proof (cases "units_by_type_item item s")
    case (Inl e)
    then have "\<not> (\<exists>s'. units_by_type_item item s = Inr s')" by simp
    then have "\<not> length (filter (\<lambda>c. c = CHR '':'') item) \<le> 1"
      using units_by_type_item_returns [of item s] by blast
    with Inl show ?thesis by simp
  next
    case (Inr s1)
    then have "\<exists>s'. units_by_type_item item s = Inr s'" by simp
    then have "length (filter (\<lambda>c. c = CHR '':'') item) \<le> 1"
      using units_by_type_item_returns [of item s] by blast
    with Inr Cons.IH [of s1] show ?thesis by simp
  qed
qed

lemma parse_unit_mix_simps:
  "is_space c = ((of_char c :: nat) \<in> {9, 10, 11, 12, 13, 28, 29, 30, 31, 32, 133, 160})"
  "is_digit c = (48 \<le> (of_char c :: nat) \<and> (of_char c :: nat) \<le> 57)"
  "digit_val c = of_char c - 48"
  "int_max_str_digits = 4300"
  by (simp_all add: is_space_def is_digit_def digit_val_def int_max_str_digits_def)

subsection \<open>Claims about the unit-mix parser\<close>

text \<open>
  Claim C1 (the parser returns a mapping for every text, also for tokens with more than
  one \<open>:\<close>). The code does not: \<open>item.split(":")\<close> splits at every \<open>:\<close>, and the
  unpacking into \<open>key, val\<close> stands before the \<open>try\<close>. For the text \<open>1BR:20:5\<close>
  the split has three parts, the unpacking raises \<open>ValueError\<close>, and the run of the
  script ends there. The lemma \<open>units_by_type_loop_returns\<close> above says when the
  parser does return: exactly when no token has more than one \<open>:\<close>.
\<close>

theorem units_by_type_two_colons_raise:
  "parse_unit_mix ''1BR:20:5'' = Inl ValueError"
  by (simp add: parse_unit_mix_def units_by_type_item_def)

text \<open>
  A token that reaches the \<open>try\<close> has exactly one \<open>:\<close>, so that
  \<open>item.split(":")\<close> is \<open>[key, val]\<close>. When \<open>int(val.strip())\<close> fails for such a
  token, the loop body adds the warning \<open>Invalid value for <key.strip()>: <val.strip()>\<close>
  and changes nothing else: no entry is added and the entries collected so far stay. The
  loop then goes on with the remaining items. For the text \<open>1BR:20,Studio:abc,2BR:15\<close>
  the parser returns the entries \<open>1BR: 20\<close> and \<open>2BR: 15\<close> and the one warning about
  \<open>Studio\<close> and \<open>abc\<close>.
\<close>

lemma units_by_type_one_colon_invalid_count:
  assumes "py_split (CHR '':'') item = [key, val]"
    and "py_int (py_strip val) = Inl e"
    and "units_by_type_loop before s0 = Inr s"
  shows "units_by_type_item item s =
           Inr (s\<lparr>warnings := warnings s @
                  [''Invalid value for '' @ py_strip key @ '': '' @ py_strip val]\<rparr>)
         \<and> units_by_type_loop (before @ item # rest) s0 =
             units_by_type_loop rest
               (s\<lparr>warnings := warnings s @
                  [''Invalid value for '' @ py_strip key @ '': '' @ py_strip val]\<rparr>)
         \<and> parse_unit_mix ''1BR:20,Studio:abc,2BR:15'' =
             Inr \<lparr>units_by_type_dict = [(''1BR'', 20), (''2BR'', 15)],
                  warnings = [''Invalid value for Studio: abc'']\<rparr>"
proof -
  have item: "units_by_type_item item s =
           Inr (s\<lparr>warnings := warnings s @
                  [''Invalid value for '' @ py_strip key @ '': '' @ py_strip val]\<rparr>)"
    using assms(1,2) by (rule units_by_type_item_invalid)
  have loop: "units_by_type_loop (before @ item # rest) s0 =
             units_by_type_loop rest
               (s\<lparr>warnings := warnings s @
                  [''Invalid value for '' @ py_strip key @ '': '' @ py_strip val]\<rparr>)"
    by (simp add: units_by_type_loop_append assms(3) item)
  have ex: "parse_unit_mix ''1BR:20,Studio:abc,2BR:15'' =
             Inr \<lparr>units_by_type_dict = [(''1BR'', 20), (''2BR'', 15)],
                  warnings = [''Invalid value for Studio: abc'']\<rparr>"
    by (simp add: parse_unit_mix_def units_by_type_item_def py_int_def py_strip_def
          st_warning_def parse_unit_mix_simps)
  from item loop ex show ?thesis by blast
qed

text \<open>The same with blanks around the label and the count: the warning names the trimmed
  pair, and the entry collected before stays.\<close>

lemma units_by_type_one_colon_invalid_count_trimmed:
  "py_split (CHR '':'') '' Studio : abc '' = ['' Studio '', '' abc '']
   \<and> py_int (py_strip '' abc '') = Inl ValueError
   \<and> units_by_type_loop [''1BR:20'', '' Studio : abc '', ''2BR:15'']
        \<lparr>units_by_type_dict = [], warnings = []\<rparr> =
      units_by_type_loop [''2BR:15'']
        \<lparr>units_by_type_dict = [(''1BR'', 20)],
         warnings = [''Invalid value for Studio: abc'']\<rparr>
   \<and> parse_unit_mix ''1BR:20, Studio : abc ,2BR:15'' =
      Inr \<lparr>units_by_type_dict = [(''1BR'', 20), (''2BR'', 15)],
           warnings = [''Invalid value for Studio: abc'']\<rparr>"
proof -
  have 1: "py_split (CHR '':'') '' Studio : abc '' = ['' Studio '', '' abc '']"
    by simp
  have 2: "py_int (py_strip '' abc '') = Inl ValueError"
    by (simp add: py_int_def py_strip_def parse_unit_mix_simps)
  have 3: "units_by_type_loop [''1BR:20''] \<lparr>units_by_type_dict = [], warnings = []\<rparr> =
             Inr \<lparr>units_by_type_dict = [(''1BR'', 20)], warnings = []\<rparr>"
    by (simp add: units_by_type_item_def py_int_def py_strip_def parse_unit_mix_simps)
  have 4: "py_strip '' Studio '' = ''Studio''" "py_strip '' abc '' = ''abc''"
    by (simp_all add: py_strip_def parse_unit_mix_simps)
  have 5: "parse_unit_mix ''1BR:20, Studio : abc ,2BR:15'' =
      Inr \<lparr>units_by_type_dict = [(''1BR'', 20), (''2BR'', 15)],
           warnings = [''Invalid value for Studio: abc'']\<rparr>"
    by (simp add: parse_unit_mix_def units_by_type_item_def py_int_def py_strip_def
          st_warning_def parse_unit_mix_simps)
  from units_by_type_one_colon_invalid_count [OF 1 2 3, of "[''2BR:15'']"] 1 2 5
  show ?thesis
    by (simp add: 4)
qed

text \<open>
  Claim C5 (every token whose count segment fails integer parsing gives a warning, adds
  no entry, keeps the earlier entries, and the parser goes on). The code does so for a
  token with one \<open>:\<close> only, as the two lemmas above say. In the token
  \<open>Studio:abc:x\<close> the count segment after the first \<open>:\<close> is \<open>abc:x\<close>, which
  \<open>int\<close> rejects; but the unpacking of \<open>item.split(":")\<close> before the \<open>try\<close>
  raises \<open>ValueError\<close> first. No warning is shown, the entry \<open>1BR: 20\<close> collected
  before is lost with the run, and the token \<open>2BR:15\<close> is never processed. This is the
  defect of claim C1.
\<close>

theorem units_by_type_invalid_count_two_colons:
  "py_int (py_strip ''abc:x'') = Inl ValueError
   \<and> units_by_type_loop [''1BR:20''] \<lparr>units_by_type_dict = [], warnings = []\<rparr> =
       Inr \<lparr>units_by_type_dict = [(''1BR'', 20)], warnings = []\<rparr>
   \<and> units_by_type_item ''Studio:abc:x''
         \<lparr>units_by_type_dict = [(''1BR'', 20)], warnings = []\<rparr> = Inl ValueError
   \<and> parse_unit_mix ''1BR:20,Studio:abc:x,2BR:15'' = Inl ValueError"
  by (simp add: parse_unit_mix_def units_by_type_item_def py_int_def py_strip_def
        parse_unit_mix_simps)

text \<open>
  Claim C6. A token without \<open>:\<close> is skipped: the loop body returns the state it was
  given, with no new entry and no new warning, and the loop goes on. For the text
  \<open>garbage\<close> the parser returns the empty mapping and no warning.
\<close>

theorem units_by_type_no_separator:
  "(CHR '':'' \<notin> set item \<longrightarrow>
      units_by_type_item item s = Inr s
      \<and> units_by_type_loop (item # rest) s = units_by_type_loop rest s)
   \<and> parse_unit_mix ''garbage'' = Inr \<lparr>units_by_type_dict = [], warnings = []\<rparr>"
  by (simp add: units_by_type_item_no_colon parse_unit_mix_def)

theorem units_by_type_no_separator_witness:
  "CHR '':'' \<notin> set ''garbage''
   \<and> units_by_type_item ''garbage''
        \<lparr>units_by_type_dict = [(''1BR'', 20)], warnings = []\<rparr> =
      Inr \<lparr>units_by_type_dict = [(''1BR'', 20)], warnings = []\<rparr>"
  using units_by_type_no_separator
    [of "''garbage''" "\<lparr>units_by_type_dict = [(''1BR'', 20)], warnings = []\<rparr>"]
  by simp



section \<open>Properties of the external data functions\<close>

text \<open>
  When \<open>get_census_data\<close> raises: exactly when a response with a status code outside
  400 to 599 has a body on which \<open>response.json()\<close> raises an exception other than
  \<open>JSONDecodeError\<close>, or a body that decodes to a value in which \<open>data[1][1]\<close> cannot
  be read.
\<close>

lemma get_census_data_raises:
  "get_census_data net state county key w = Inl e \<longleftrightarrow>
     (\<exists>status. \<not> (400 \<le> status \<and> status < 600)
        \<and> (net (census_request state county key) = Response status (Json_raises e)
           \<or> (\<exists>data.
                net (census_request state county key) = Response status (Json data)
                \<and> (py_getitem data 1 = Inl e
                   \<or> (\<exists>row. py_getitem data 1 = Inr row \<and> py_getitem row 1 = Inl e)))))"
proof (cases "net (census_request state county key)")
  case (Request_raises msg)
  then show ?thesis
    by (simp add: get_census_data_def census_try_def)
next
  case (Response status body)
  show ?thesis
  proof (cases "400 \<le> status \<and> status < 600")
    case True
    with Response show ?thesis
      by (auto simp: get_census_data_def census_try_def raise_for_status_def)
  next
    case False
    show ?thesis
    proof (cases body)
      case Not_json
      with Response False show ?thesis
        by (auto simp: get_census_data_def census_try_def raise_for_status_def)
    next
      case (Json_raises e1)
      with Response False show ?thesis
        by (auto simp: get_census_data_def census_try_def raise_for_status_def)
    next
      case (Json data)
      show ?thesis
      proof (cases "py_getitem data 1")
        case (Inl e1)
        with Response False Json show ?thesis
          by (auto simp: get_census_data_def census_try_def raise_for_status_def)
      next
        case (Inr row)
        with Response False Json show ?thesis
          by (cases "py_getitem row 1")
            (auto simp: get_census_data_def census_try_def raise_for_status_def)
      qed
    qed
  qed
qed

text \<open>
  Claim C2, as the code has it. When \<open>requests.get\<close> raises, when the status code is
  between 400 and 599, or when \<open>response.json()\<close> raises \<open>JSONDecodeError\<close> because
  the body is not JSON, \<open>get_census_data\<close> shows the error and returns \<open>"N/A"\<close>. When
  the status code is outside 400 to 599 and \<open>response.json()\<close> returns an array whose
  element 1 is an array with an element 1, it returns that element and shows nothing. In
  each case the one request has been sent. Nothing is said of a body on which
  \<open>response.json()\<close> raises another exception, or which decodes to a value of another
  shape.
\<close>

theorem get_census_data_fallback:
  "(net (census_request state county key) = Request_raises msg \<longrightarrow>
      get_census_data net state county key w =
        Inr (JStr ''N/A'',
             \<lparr>ui = ui w @ [St_error ''Error fetching Census data: '' (Transport_error msg)],
              sent = sent w @ [census_request state county key]\<rparr>))
   \<and> (net (census_request state county key) = Response status body \<longrightarrow>
      400 \<le> status \<longrightarrow> status < 600 \<longrightarrow>
      get_census_data net state county key w =
        Inr (JStr ''N/A'',
             \<lparr>ui = ui w @ [St_error ''Error fetching Census data: '' (HTTPError status)],
              sent = sent w @ [census_request state county key]\<rparr>))
   \<and> (net (census_request state county key) = Response status Not_json \<longrightarrow>
      \<not> (400 \<le> status \<and> status < 600) \<longrightarrow>
      get_census_data net state county key w =
        Inr (JStr ''N/A'',
             \<lparr>ui = ui w @ [St_error ''Error fetching Census data: '' JSONDecodeError],
              sent = sent w @ [census_request state county key]\<rparr>))
   \<and> (net (census_request state county key) = Response status (Json (JArr rows)) \<longrightarrow>
      \<not> (400 \<le> status \<and> status < 600) \<longrightarrow>
      1 < length rows \<longrightarrow> rows ! 1 = JArr cols \<longrightarrow> 1 < length cols \<longrightarrow>
      get_census_data net state county key w =
        Inr (cols ! 1,
             \<lparr>ui = ui w, sent = sent w @ [census_request state county key]\<rparr>))"
  by (simp add: get_census_data_def census_try_def raise_for_status_def show_notice_def)

theorem get_census_data_fallback_witness:
  "get_census_data (\<lambda>_. Request_raises ''timed out'') ''06'' ''037'' ''key''
       \<lparr>ui = [], sent = []\<rparr>
     = (Inr (JStr ''N/A'',
             \<lparr>ui = [St_error ''Error fetching Census data: '' (Transport_error ''timed out'')],
              sent = [census_request ''06'' ''037'' ''key'']\<rparr>)
        :: py_exn + float_expr json \<times> float_expr world)
   \<and> get_census_data (\<lambda>_. Response 404 Not_json) ''06'' ''037'' ''key''
       \<lparr>ui = [], sent = []\<rparr>
     = (Inr (JStr ''N/A'',
             \<lparr>ui = [St_error ''Error fetching Census data: '' (HTTPError 404)],
              sent = [census_request ''06'' ''037'' ''key'']\<rparr>)
        :: py_exn + float_expr json \<times> float_expr world)
   \<and> get_census_data (\<lambda>_. Response 200 Not_json) ''06'' ''037'' ''key''
       \<lparr>ui = [], sent = []\<rparr>
     = (Inr (JStr ''N/A'',
             \<lparr>ui = [St_error ''Error fetching Census data: '' JSONDecodeError],
              sent = [census_request ''06'' ''037'' ''key'']\<rparr>)
        :: py_exn + float_expr json \<times> float_expr world)
   \<and> get_census_data
       (\<lambda>_. Response 200
          (Json (JArr [JArr [JStr ''NAME'', JStr ''B19013_001E'', JStr ''state'', JStr ''county''],
                       JArr [JStr ''Los Angeles County, California'', JStr ''76367'',
                             JStr ''06'', JStr ''037'']])))
       ''06'' ''037'' ''key'' \<lparr>ui = [], sent = []\<rparr>
     = (Inr (JStr ''76367'', \<lparr>ui = [], sent = [census_request ''06'' ''037'' ''key'']\<rparr>)
        :: py_exn + float_expr json \<times> float_expr world)"
  using
    get_census_data_fallback
      [of "\<lambda>_. Request_raises ''timed out''" "''06''" "''037''" "''key''" "''timed out''"
          "\<lparr>ui = [], sent = []\<rparr> :: float_expr world"]
    get_census_data_fallback
      [of "\<lambda>_. Response 404 Not_json" "''06''" "''037''" "''key''" _
          "\<lparr>ui = [], sent = []\<rparr> :: float_expr world" 404 Not_json]
    get_census_data_fallback
      [of "\<lambda>_. Response 200 Not_json" "''06''" "''037''" "''key''" _
          "\<lparr>ui = [], sent = []\<rparr> :: float_expr world" 200]
    get_census_data_fallback
      [of "\<lambda>_. Response 200
          (Json (JArr [JArr [JStr ''NAME'', JStr ''B19013_001E'', JStr ''state'', JStr ''county''],
                       JArr [JStr ''Los Angeles County, California'', JStr ''76367'',
                             JStr ''06'', JStr ''037'']]))"
          "''06''" "''037''" "''key''" _
          "\<lparr>ui = [], sent = []\<rparr> :: float_expr world" 200 _
          "[JArr [JStr ''NAME'', JStr ''B19013_001E'', JStr ''state'', JStr ''county''],
            JArr [JStr ''Los Angeles County, California'', JStr ''76367'',
                  JStr ''06'', JStr ''037'']]"
          "[JStr ''Los Angeles County, California'', JStr ''76367'', JStr ''06'', JStr ''037'']"]
  by simp

text \<open>
  Claim C2 as it was stated (\<open>"N/A"\<close> for every status other than 2xx and for every
  malformed body, and never an exception) fails on four answers of the network: a body
  with the header row only raises \<open>IndexError\<close>; a JSON object raises \<open>KeyError\<close>;
  a body with an integer literal of more than 4300 digits, on which \<open>response.json()\<close>
  raises \<open>ValueError\<close>, raises that \<open>ValueError\<close>; and with status 300, for which
  \<open>raise_for_status\<close> does not raise, the income of a well-formed body is returned.
\<close>

theorem get_census_data_malformed_body:
  "get_census_data
     (\<lambda>_. Response 200
        (Json (JArr [JArr [JStr ''NAME'', JStr ''B19013_001E'', JStr ''state'', JStr ''county'']])))
     ''06'' ''037'' ''key'' \<lparr>ui = [], sent = []\<rparr>
     = (Inl IndexError :: py_exn + float_expr json \<times> float_expr world)
   \<and> get_census_data
     (\<lambda>_. Response 200 (Json (JObj [(''error'', JStr ''unknown county'')])))
     ''06'' ''037'' ''key'' \<lparr>ui = [], sent = []\<rparr>
     = (Inl KeyError :: py_exn + float_expr json \<times> float_expr world)
   \<and> get_census_data (\<lambda>_. Response 200 (Json_raises ValueError))
     ''06'' ''037'' ''key'' \<lparr>ui = [], sent = []\<rparr>
     = (Inl ValueError :: py_exn + float_expr json \<times> float_expr world)
   \<and> get_census_data
     (\<lambda>_. Response 300
        (Json (JArr [JArr [JStr ''NAME'', JStr ''B19013_001E''],
                     JArr [JStr ''Los Angeles County, California'', JStr ''76367'']])))
     ''06'' ''037'' ''key'' \<lparr>ui = [], sent = []\<rparr>
     = (Inr (JStr ''76367'',
             \<lparr>ui = [], sent = [census_request ''06'' ''037'' ''key'']\<rparr>)
        :: py_exn + float_expr json \<times> float_expr world)"
  by (simp add: get_census_data_def census_try_def raise_for_status_def)

text \<open>
  Claim C4. For every address and API key \<open>get_zillow_rent_zestimate\<close> returns 2500,
  shows its one warning, and sends no request.
\<close>

theorem get_zillow_rent_zestimate_constant:
  "fst (get_zillow_rent_zestimate address key w) = 2500
   \<and> ui (snd (get_zillow_rent_zestimate address key w)) =
       ui w @ [St_warning
         ''Zillow API integration requires approval and setup. Returning sample value.'']
   \<and> sent (snd (get_zillow_rent_zestimate address key w)) = sent w"
  by (simp add: get_zillow_rent_zestimate_def show_notice_def)

section \<open>Properties of the evaluation\<close>

lemma evaluate_eq:
  "evaluate fp v =
     Inr \<lparr>total_cost = bldg_sqft v * cost_per_sqft v + conversion_costs v,
          noi = rental_income v - operating_expenses v,
          profit = condo_sellout v - (bldg_sqft v * cost_per_sqft v + conversion_costs v),
          roi = (if bldg_sqft v * cost_per_sqft v + conversion_costs v \<noteq> 0
                 then Float_val (float_mul fp
                        (int_truediv fp
                           (condo_sellout v - (bldg_sqft v * cost_per_sqft v + conversion_costs v))
                           (bldg_sqft v * cost_per_sqft v + conversion_costs v))
                        (float_of_int fp 100))
                 else Int_val 0)\<rparr>"
  by (simp add: evaluate_def Let_def py_truediv_def)

lemma default_variables_simps:
  "bldg_sqft (default_variables :: 'f variables) = 50000"
  "cost_per_sqft (default_variables :: 'f variables) = 200"
  "conversion_costs (default_variables :: 'f variables) = 3000000"
  "rental_income (default_variables :: 'f variables) = 1200000"
  "operating_expenses (default_variables :: 'f variables) = 400000"
  "condo_sellout (default_variables :: 'f variables) = 20000000"
  by (simp_all add: default_variables_def script_variables_def default_widgets_def
        widgets.defs variables.defs)

text \<open>
  Claim C3. The evaluation never raises: division by zero is excluded by the condition.
  When the total development cost is 0 the ROI is the integer 0. Otherwise it is the float
  \<open>((condo_sellout - total_cost) / total_cost) * 100\<close>, with the true division and the
  product of the interpreter, which are the parameters \<open>int_truediv\<close> and \<open>float_mul\<close>
  of the model: the equation is one between floats, not between exact quotients.
\<close>

theorem roi_formula:
  "\<exists>ev. evaluate fp v = Inr ev
     \<and> (total_cost ev = 0 \<longrightarrow> roi ev = Int_val 0)
     \<and> (total_cost ev \<noteq> 0 \<longrightarrow>
          roi ev = Float_val (float_mul fp
                     (int_truediv fp (condo_sellout v - total_cost ev) (total_cost ev))
                     (float_of_int fp 100)))"
  by (simp add: evaluate_eq)

theorem roi_formula_witness:
  "(\<exists>ev. evaluate symbolic_ops (default_variables :: float_expr variables) = Inr ev
      \<and> total_cost ev \<noteq> 0
      \<and> roi ev = Float_val (Mul (Truediv 7000000 13000000) (Of_int 100)))
   \<and> (\<exists>ev. evaluate symbolic_ops
          ((default_variables :: float_expr variables)\<lparr>bldg_sqft := 0, conversion_costs := 0\<rparr>)
            = Inr ev
      \<and> total_cost ev = 0
      \<and> roi ev = Int_val 0)"
  using roi_formula [of symbolic_ops "default_variables :: float_expr variables"]
    roi_formula [of symbolic_ops
      "(default_variables :: float_expr variables)\<lparr>bldg_sqft := 0, conversion_costs := 0\<rparr>"]
  by (simp add: evaluate_eq default_variables_simps symbolic_ops_def)

text \<open>
  Claim C8. The total development cost is \<open>bldg_sqft * cost_per_sqft + conversion_costs\<close>,
  an exact integer, for all values of the three inputs (the widgets deliver non-negative
  integers only); with 50000, 200 and 3000000 it is 13000000.
\<close>

theorem total_cost_formula:
  "(\<exists>ev. evaluate fp v = Inr ev
      \<and> total_cost ev = bldg_sqft v * cost_per_sqft v + conversion_costs v)
   \<and> (\<exists>ev. evaluate fp
          (v\<lparr>bldg_sqft := 50000, cost_per_sqft := 200, conversion_costs := 3000000\<rparr>) = Inr ev
      \<and> total_cost ev = 13000000)"
  by (simp add: evaluate_eq)

text \<open>
  Claim C9. The net operating income is \<open>rental_income - operating_expenses\<close>, an exact
  integer that is not clamped: with the income 0 and the expenses 1 it is negative.
\<close>

theorem noi_formula:
  "(\<exists>ev. evaluate fp v = Inr ev
      \<and> noi ev = rental_income v - operating_expenses v)
   \<and> (\<exists>ev. evaluate fp (v\<lparr>rental_income := 0, operating_expenses := 1\<rparr>) = Inr ev
      \<and> noi ev < 0)"
  by (simp add: evaluate_eq)

section \<open>Properties of a run of the script\<close>

lemma script_variables_simps:
  "bldg_sqft (script_variables i income rent mix) = bldg_sqft i"
  "cost_per_sqft (script_variables i income rent mix) = cost_per_sqft i"
  "conversion_costs (script_variables i income rent mix) = conversion_costs i"
  "rental_income (script_variables i income rent mix) = rental_income i"
  "operating_expenses (script_variables i income rent mix) = operating_expenses i"
  "condo_sellout (script_variables i income rent mix) = condo_sellout i"
  by (simp_all add: script_variables_def widgets.defs variables.defs)

lemma evaluate_cong:
  assumes "bldg_sqft v1 = bldg_sqft v2" "cost_per_sqft v1 = cost_per_sqft v2"
    "conversion_costs v1 = conversion_costs v2" "rental_income v1 = rental_income v2"
    "operating_expenses v1 = operating_expenses v2" "condo_sellout v1 = condo_sellout v2"
  shows "evaluate fp v1 = evaluate fp v2"
  by (simp add: evaluate_eq assms)

lemma app_Inr:
  assumes "app fp net i w0 = Inr (v, r, w)"
  shows "\<exists>income rent mix. v = script_variables i income rent mix
           \<and> r = (if evaluate_button i
                  then (case evaluate fp v of Inr ev \<Rightarrow> Some ev | Inl e \<Rightarrow> None)
                  else None)"
proof (cases "fetch_income net i w0")
  case (Inl e)
  with assms show ?thesis by (simp add: app_def)
next
  case (Inr p)
  obtain income w1 where p: "p = (income, w1)" by (cases p)
  obtain rent w2 where fr: "fetch_rent i w1 = (rent, w2)" by (cases "fetch_rent i w1")
  show ?thesis
  proof (cases "parse_unit_mix (units_by_type_text i)")
    case (Inl e)
    with assms Inr p fr show ?thesis by (simp add: app_def)
  next
    case mix: (Inr mix)
    show ?thesis
    proof (cases "evaluate_button i")
      case False
      with assms Inr p fr mix have "v = script_variables i income rent mix" "r = None"
        by (simp_all add: app_def Let_def)
      with False show ?thesis by auto
    next
      case True
      with assms Inr p fr mix have "v = script_variables i income rent mix"
        "r = (case evaluate fp v of Inr ev \<Rightarrow> Some ev | Inl e \<Rightarrow> None)"
        by (auto simp: app_def Let_def evaluate_eq)
      with True show ?thesis by auto
    qed
  qed
qed

lemma units_by_type_script_variables:
  "units_by_type (script_variables i income rent mix) = units_by_type_dict mix"
  by (simp add: script_variables_def widgets.defs variables.defs)

lemma default_widgets_simps:
  "census_button default_widgets = False"
  "zillow_button default_widgets = False"
  "evaluate_button default_widgets = False"
  "units_by_type_text default_widgets = ''''"
  "bldg_sqft default_widgets = 50000"
  "cost_per_sqft default_widgets = 200"
  "conversion_costs default_widgets = 3000000"
  "rental_income default_widgets = 1200000"
  "operating_expenses default_widgets = 400000"
  "condo_sellout default_widgets = 20000000"
  "state_fips default_widgets = ''''"
  "county_fips default_widgets = ''''"
  "census_api_key default_widgets = ''''"
  "zillow_api_key default_widgets = ''''"
  "property_address default_widgets = ''''"
  by (simp_all add: default_widgets_def)

lemma app_default:
  "app fp net default_widgets w = Inr (default_variables, None, w)"
  by (simp add: app_def fetch_income_def fetch_rent_def parse_unit_mix_def
        units_by_type_item_def default_widgets_simps default_variables_def)

text \<open>
  Claim C10. Take two runs of the script in which the evaluation was asked for and
  carried out, with the same six values \<open>bldg_sqft\<close>, \<open>cost_per_sqft\<close>,
  \<open>conversion_costs\<close>, \<open>rental_income\<close>, \<open>operating_expenses\<close> and
  \<open>condo_sellout\<close>. Whatever else differs (the answer of the network and so the median
  income fetched, the rent estimate, the texts, the lists, the unit mix, the commercial
  units, the occupancy rate, the other buttons), both runs compute the same total cost,
  NOI, profit and ROI.
\<close>

theorem evaluation_depends_on_six_inputs:
  assumes "app fp net1 i1 w1 = Inr (v1, r1, u1)"
    and "app fp net2 i2 w2 = Inr (v2, r2, u2)"
    and "evaluate_button i1" and "evaluate_button i2"
    and "bldg_sqft i1 = bldg_sqft i2"
    and "cost_per_sqft i1 = cost_per_sqft i2"
    and "conversion_costs i1 = conversion_costs i2"
    and "rental_income i1 = rental_income i2"
    and "operating_expenses i1 = operating_expenses i2"
    and "condo_sellout i1 = condo_sellout i2"
  shows "r1 = r2 \<and> (\<exists>ev. r1 = Some ev) \<and> evaluate fp v1 = evaluate fp v2"
proof -
  from app_Inr [OF assms(1)] assms(3) obtain income1 rent1 mix1 where
    v1: "v1 = script_variables i1 income1 rent1 mix1"
    and r1: "r1 = (case evaluate fp v1 of Inr ev \<Rightarrow> Some ev | Inl e \<Rightarrow> None)"
    by auto
  from app_Inr [OF assms(2)] assms(4) obtain income2 rent2 mix2 where
    v2: "v2 = script_variables i2 income2 rent2 mix2"
    and r2: "r2 = (case evaluate fp v2 of Inr ev \<Rightarrow> Some ev | Inl e \<Rightarrow> None)"
    by auto
  have eq: "evaluate fp v1 = evaluate fp v2"
    unfolding v1 v2
    by (rule evaluate_cong) (simp_all add: script_variables_simps assms(5-10))
  have "\<exists>ev. r1 = Some ev"
    unfolding r1 by (simp add: evaluate_eq)
  with eq r1 r2 show ?thesis by simp
qed

theorem evaluation_depends_on_six_inputs_witness:
  "(case app symbolic_ops (\<lambda>_. Request_raises ''down'')
           (default_widgets\<lparr>evaluate_button := True\<rparr>) \<lparr>ui = [], sent = []\<rparr> of
      Inl e \<Rightarrow> None | Inr (v, r, u) \<Rightarrow> r)
     = Some \<lparr>total_cost = 13000000, noi = 800000, profit = 7000000,
             roi = Float_val (Mul (Truediv 7000000 13000000) (Of_int 100))\<rparr>
   \<and> (case app symbolic_ops (\<lambda>_. Request_raises ''down'')
           (default_widgets\<lparr>evaluate_button := True, census_button := True,
              zillow_button := True, units_by_type_text := ''1BR:20,Studio:abc'',
              discovery := ''lot 7'', gov_programs_text := ''a,b'',
              commercial_units := 0, occupancy_rates := 50\<rparr>)
           \<lparr>ui = [], sent = []\<rparr> of
      Inl e \<Rightarrow> None | Inr (v, r, u) \<Rightarrow> r)
     = Some \<lparr>total_cost = 13000000, noi = 800000, profit = 7000000,
             roi = Float_val (Mul (Truediv 7000000 13000000) (Of_int 100))\<rparr>"
proof -
  let ?net = "\<lambda>_ :: http_request. Request_raises ''down'' :: float_expr http_outcome"
  let ?w0 = "\<lparr>ui = [], sent = []\<rparr> :: float_expr world"
  let ?i1 = "default_widgets\<lparr>evaluate_button := True\<rparr>"
  let ?i2 = "default_widgets\<lparr>evaluate_button := True, census_button := True,
              zillow_button := True, units_by_type_text := ''1BR:20,Studio:abc'',
              discovery := ''lot 7'', gov_programs_text := ''a,b'',
              commercial_units := 0, occupancy_rates := 50\<rparr>"
  let ?ev = "\<lparr>total_cost = 13000000, noi = 800000, profit = 7000000,
             roi = Float_val (Mul (Truediv 7000000 13000000) (Of_int 100))\<rparr>"
  have "\<exists>v1 u1. app symbolic_ops ?net ?i1 ?w0 = Inr (v1, Some ?ev, u1)"
    by (simp add: app_def Let_def fetch_income_def fetch_rent_def parse_unit_mix_def
          units_by_type_item_def default_widgets_simps evaluate_eq script_variables_simps
          symbolic_ops_def)
  then obtain v1 u1 where run1: "app symbolic_ops ?net ?i1 ?w0 = Inr (v1, Some ?ev, u1)"
    by blast
  have "\<exists>v2 u2. app symbolic_ops ?net ?i2 ?w0 = Inr (v2, Some ?ev, u2)"
    by (simp add: app_def Let_def fetch_income_def fetch_rent_def parse_unit_mix_def
          get_census_data_def census_try_def get_zillow_rent_zestimate_def
          units_by_type_item_def py_int_def py_strip_def st_warning_def
          is_space_def is_digit_def digit_val_def int_max_str_digits_def
          default_widgets_simps evaluate_eq script_variables_simps symbolic_ops_def)
  then obtain v2 u2 where run2: "app symbolic_ops ?net ?i2 ?w0 = Inr (v2, Some ?ev, u2)"
    by blast
  from evaluation_depends_on_six_inputs [OF run1 run2] run1 run2 show ?thesis
    by (simp add: default_widgets_simps)
qed

end
